theory Spec2Isabelle
  imports Main
begin

section \<open>Python values\<close>

text \<open>
  The values that flow through \<^verbatim>\<open>modules/video_gen.py\<close>: what \<^verbatim>\<open>response.json()\<close> yields,
  the entries of the result dictionaries, and the value of the \<^verbatim>\<open>and\<close> chain in
  \<^verbatim>\<open>is_ready\<close>. A JSON object is an association list read with \<open>map_of\<close>. Floating point
  numbers are left out: the code only compares such values with strings.
\<close>

datatype pyval =
    PNone
  | PBool bool
  | PInt int
  | PStr string
  | PList "pyval list"
  | PDict "(string \<times> pyval) list"

text \<open>Python's truth value of an object, as \<^verbatim>\<open>if\<close>, \<^verbatim>\<open>and\<close> and \<^verbatim>\<open>not\<close> use it.\<close>

fun truthy :: "pyval \<Rightarrow> bool" where
  "truthy PNone = False"
| "truthy (PBool b) = b"
| "truthy (PInt i) = (i \<noteq> 0)"
| "truthy (PStr t) = (t \<noteq> [])"
| "truthy (PList xs) = (xs \<noteq> [])"
| "truthy (PDict kvs) = (kvs \<noteq> [])"

section \<open>VideoSession\<close>

text \<open>
  \<^verbatim>\<open>self.state\<close> is only ever assigned one of the four string literals listed in the
  comment of \<^verbatim>\<open>__init__\<close>; they are the constructors of \<open>session_state\<close>. An unset prompt is
  the empty string, as \<^verbatim>\<open>__init__\<close> and \<^verbatim>\<open>reset\<close> write it.
\<close>

datatype session_state = Idle | CollectingPhotos | WaitingForPrompt | Processing

record VideoSession =
  state :: session_state
  photos :: "string list"
  prompt :: string

definition create_video_session :: VideoSession where
  "create_video_session = \<lparr>state = Idle, photos = [], prompt = ''''\<rparr>"

definition reset :: "VideoSession \<Rightarrow> VideoSession" where
  "reset s = s\<lparr>state := Idle, photos := [], prompt := ''''\<rparr>"

text \<open>
  \<^verbatim>\<open>add_photo\<close> first moves an idle session to \<^verbatim>\<open>collecting_photos\<close>, then tests the state
  again; the photo is appended only below the cap of four. The pair is the returned
  boolean and the session after the call.
\<close>

definition add_photo :: "VideoSession \<Rightarrow> string \<Rightarrow> bool \<times> VideoSession" where
  "add_photo s photo_path =
     (let s1 = (if state s = Idle then s\<lparr>state := CollectingPhotos\<rparr> else s) in
      if state s1 = CollectingPhotos then
        (if length (photos s1) < 4
         then (True, s1\<lparr>photos := photos s1 @ [photo_path]\<rparr>)
         else (False, s1))
      else (False, s1))"

definition set_prompt :: "VideoSession \<Rightarrow> string \<Rightarrow> VideoSession" where
  "set_prompt s p = s\<lparr>prompt := p, state := WaitingForPrompt\<rparr>"

definition start_processing :: "VideoSession \<Rightarrow> VideoSession" where
  "start_processing s = s\<lparr>state := Processing\<rparr>"

text \<open>
  \<^verbatim>\<open>len(self.photos) >= 1 and self.prompt and self.state == "waiting_for_prompt"\<close>:
  Python's \<^verbatim>\<open>and\<close> returns the first falsy operand, else the last one. So the value is
  \<^verbatim>\<open>False\<close> without photos, the empty prompt itself when the prompt is empty, and the
  comparison otherwise.
\<close>

definition is_ready :: "VideoSession \<Rightarrow> pyval" where
  "is_ready s =
     (if \<not> (length (photos s) \<ge> 1) then PBool False
      else if \<not> truthy (PStr (prompt s)) then PStr (prompt s)
      else PBool (state s = WaitingForPrompt))"

text \<open>The calls a client can make on a session, and a session driven by a list of them.\<close>

datatype session_op =
    AddPhoto string
  | SetPrompt string
  | StartProcessing
  | Reset
  | IsReady

fun apply_op :: "VideoSession \<Rightarrow> session_op \<Rightarrow> VideoSession" where
  "apply_op s (AddPhoto p) = snd (add_photo s p)"
| "apply_op s (SetPrompt t) = set_prompt s t"
| "apply_op s StartProcessing = start_processing s"
| "apply_op s Reset = reset s"
| "apply_op s IsReady = s"

definition run_session :: "session_op list \<Rightarrow> VideoSession" where
  "run_session ops = foldl apply_op create_video_session ops"

text \<open>What holds of every session reached from a fresh one: at most four photos, and an
  idle session holds none.\<close>

definition session_inv :: "VideoSession \<Rightarrow> bool" where
  "session_inv s \<longleftrightarrow> length (photos s) \<le> 4 \<and> (state s = Idle \<longrightarrow> photos s = [])"

section \<open>Exceptions and access to JSON values\<close>

text \<open>
  An exception is a value; \<open>str_exn\<close> is Python's \<^verbatim>\<open>str(e)\<close>. \<open>KeyError\<close>, \<open>TypeError\<close> and
  \<open>AttributeError\<close> are the ones the code itself can raise, by subscripting or calling
  \<^verbatim>\<open>.get\<close> on what \<^verbatim>\<open>response.json()\<close> returned; \<open>OtherError\<close> is any other instance of
  \<^verbatim>\<open>Exception\<close> raised by the file system, the HTTP client or the JSON decoder, with its
  message. Task cancellation and interpreter exit, which are not instances of
  \<^verbatim>\<open>Exception\<close>, are outside the model.
\<close>

datatype exn =
    KeyError string
  | TypeError string
  | AttributeError string
  | OtherError string

definition quote :: "string \<Rightarrow> string" where
  "quote t = [CHR 0x27] @ t @ [CHR 0x27]"

fun str_exn :: "exn \<Rightarrow> string" where
  "str_exn (KeyError k) = quote k"
| "str_exn (TypeError m) = m"
| "str_exn (AttributeError m) = m"
| "str_exn (OtherError m) = m"

fun type_name :: "pyval \<Rightarrow> string" where
  "type_name PNone = ''NoneType''"
| "type_name (PBool b) = ''bool''"
| "type_name (PInt i) = ''int''"
| "type_name (PStr t) = ''str''"
| "type_name (PList xs) = ''list''"
| "type_name (PDict kvs) = ''dict''"

text \<open>\<^verbatim>\<open>v[k]\<close> with a string key: the entry of a dictionary, \<^verbatim>\<open>KeyError\<close> when it is missing,
  \<^verbatim>\<open>TypeError\<close> on anything that is not a dictionary.\<close>

fun subscript :: "pyval \<Rightarrow> string \<Rightarrow> exn + pyval" where
  "subscript (PDict kvs) k = (case map_of kvs k of Some v \<Rightarrow> Inr v | None \<Rightarrow> Inl (KeyError k))"
| "subscript (PList xs) k = Inl (TypeError ''list indices must be integers or slices, not str'')"
| "subscript (PStr t) k = Inl (TypeError (''string indices must be integers, not '' @ quote ''str''))"
| "subscript v k = Inl (TypeError (quote (type_name v) @ '' object is not subscriptable''))"

text \<open>\<^verbatim>\<open>v.get(k, d)\<close>: only dictionaries have the method.\<close>

fun dict_get :: "pyval \<Rightarrow> string \<Rightarrow> pyval \<Rightarrow> exn + pyval" where
  "dict_get (PDict kvs) k d = Inr (case map_of kvs k of Some v \<Rightarrow> v | None \<Rightarrow> d)"
| "dict_get v k d =
     Inl (AttributeError (quote (type_name v) @ '' object has no attribute '' @ quote ''get''))"

section \<open>The environment of the generator\<close>

text \<open>
  An HTTP response as the code reads it: \<^verbatim>\<open>status_code\<close>, \<^verbatim>\<open>text\<close>, \<^verbatim>\<open>content\<close>, and the
  outcome of calling \<^verbatim>\<open>json()\<close>, which raises on a body that is not JSON.
\<close>

record response =
  status_code :: int
  resp_text :: string
  json :: "exn + pyval"
  content :: string

text \<open>The fields of \<^verbatim>\<open>Config\<close> that \<^verbatim>\<open>VideoGenerator\<close> reads; the storage path is the
  string form of the \<^verbatim>\<open>Path\<close>.\<close>

record Config =
  seedance_api_key :: string
  seedance_api_url :: string
  mock_mode :: bool
  video_storage_path :: string

text \<open>
  What a call does to the outside world, in order: sleeping, reading the clock
  (\<open>Now\<close> carries the value read), file operations and HTTP requests. An event is
  recorded when the operation is attempted, whether or not it then raises.
\<close>

datatype event =
    Sleep nat
  | Now int
  | Mkdir string
  | Touch string
  | WriteBytes string string
  | OpenFile string
  | PostUpload string string
  | PostGenerate string string "pyval list"
  | GetJob string pyval
  | GetUrl pyval

fun is_network :: "event \<Rightarrow> bool" where
  "is_network (PostUpload u p) = True"
| "is_network (PostGenerate u p r) = True"
| "is_network (GetJob u r) = True"
| "is_network (GetUrl u) = True"
| "is_network e = False"

fun is_submit :: "event \<Rightarrow> bool" where
  "is_submit (PostGenerate u p r) = True"
| "is_submit e = False"

text \<open>
  How the outside world answers. Each field is the outcome of one operation of the
  code: \<open>None\<close> or \<open>Inr\<close> when it succeeds, the exception when it raises. \<open>post_upload\<close> and
  \<open>get_job\<close> take the number of the call, so that the same request can be answered
  differently each time; \<open>now k\<close> is the \<open>k\<close>-th value of \<^verbatim>\<open>datetime.now()\<close> read during
  polling, in microseconds. \<open>joinpath\<close> is \<^verbatim>\<open>pathlib\<close>'s \<^verbatim>\<open>/\<close> followed by \<^verbatim>\<open>str\<close>, and
  \<open>uuid4_hex\<close> the value of \<^verbatim>\<open>uuid.uuid4().hex\<close>.
\<close>

record world =
  uuid4_hex :: string
  joinpath :: "string \<Rightarrow> string \<Rightarrow> string"
  mkdir :: "string \<Rightarrow> exn option"
  touch :: "string \<Rightarrow> exn option"
  write_bytes :: "string \<Rightarrow> string \<Rightarrow> exn option"
  open_rb :: "string \<Rightarrow> exn option"
  post_upload :: "nat \<Rightarrow> string \<Rightarrow> exn + response"
  post_generate :: "string \<Rightarrow> pyval list \<Rightarrow> exn + response"
  get_job :: "nat \<Rightarrow> pyval \<Rightarrow> exn + response"
  get_url :: "pyval \<Rightarrow> exn + response"
  now :: "nat \<Rightarrow> int"

text \<open>The state a call threads through: the events so far and the contents of the files
  written.\<close>

record sys =
  trace :: "event list"
  files :: "string \<Rightarrow> string option"

definition emit :: "event \<Rightarrow> sys \<Rightarrow> sys" where
  "emit e s = s\<lparr>trace := trace s @ [e]\<rparr>"

text \<open>The result dictionaries. \<open>failed_result\<close> is the literal
  \<^verbatim>\<open>{"job_id": .., "status": "failed", "error": ..}\<close> that the code writes in six places.\<close>

type_synonym job_result = "string \<Rightarrow> pyval option"

definition failed_result :: "pyval \<Rightarrow> pyval \<Rightarrow> job_result" where
  "failed_result jid err = [''job_id'' \<mapsto> jid, ''status'' \<mapsto> PStr ''failed'', ''error'' \<mapsto> err]"

section \<open>VideoGenerator\<close>

text \<open>
  \<^verbatim>\<open>timedelta.seconds\<close> of a difference of \<open>d\<close> microseconds: Python normalises a
  \<^verbatim>\<open>timedelta\<close> to days, seconds in \<open>0..86399\<close> and microseconds, and \<^verbatim>\<open>.seconds\<close> is the
  middle component, not the total.
\<close>

definition td_seconds :: "int \<Rightarrow> int" where
  "td_seconds d = (d mod 86400000000) div 1000000"

text \<open>
  The \<^verbatim>\<open>while\<close> loop of \<^verbatim>\<open>_poll_for_completion\<close>; \<open>k\<close> counts the cycles. The loop may run
  forever, which is the value \<open>None\<close>. \<open>Inl\<close> is an exception leaving the function.
\<close>

partial_function (option) poll_loop ::
  "world \<Rightarrow> string \<Rightarrow> pyval \<Rightarrow> int \<Rightarrow> nat \<Rightarrow> sys \<Rightarrow> ((exn + job_result) \<times> sys) option"
where
  "poll_loop w api_url remote_job_id max_wait k s =
     (let s0 = emit (Now (now w (Suc k))) s in
      if td_seconds (now w (Suc k) - now w 0) < max_wait then
        (let s1 = emit (GetJob api_url remote_job_id) s0 in
         case get_job w k remote_job_id of
           Inl e \<Rightarrow> Some (Inl e, s1)
         | Inr resp \<Rightarrow>
             if status_code resp = 200 then
               (case json resp of
                  Inl e \<Rightarrow> Some (Inl e, s1)
                | Inr data \<Rightarrow>
                    (case dict_get data ''status'' (PStr ''pending'') of
                       Inl e \<Rightarrow> Some (Inl e, s1)
                     | Inr status \<Rightarrow>
                         if status = PStr ''completed'' then
                           (case dict_get data ''video_url'' PNone of
                              Inl e \<Rightarrow> Some (Inl e, s1)
                            | Inr video_url \<Rightarrow>
                                Some (Inr [''job_id'' \<mapsto> remote_job_id,
                                           ''status'' \<mapsto> PStr ''completed'',
                                           ''video_url'' \<mapsto> video_url], s1))
                         else if status = PStr ''failed'' then
                           (case dict_get data ''error'' (PStr ''Unknown error'') of
                              Inl e \<Rightarrow> Some (Inl e, s1)
                            | Inr err \<Rightarrow> Some (Inr (failed_result remote_job_id err), s1))
                         else poll_loop w api_url remote_job_id max_wait (Suc k)
                                (emit (Sleep 5) s1)))
             else poll_loop w api_url remote_job_id max_wait (Suc k) (emit (Sleep 5) s1))
      else
        Some (Inr (failed_result remote_job_id (PStr ''Timeout waiting for video generation'')),
              s0))"

definition poll_for_completion ::
  "world \<Rightarrow> string \<Rightarrow> pyval \<Rightarrow> int \<Rightarrow> sys \<Rightarrow> ((exn + job_result) \<times> sys) option"
where
  "poll_for_completion w api_url remote_job_id max_wait s =
     poll_loop w api_url remote_job_id max_wait 0 (emit (Now (now w 0)) s)"

text \<open>Step 1 of \<^verbatim>\<open>_real_generate\<close>, the loop over the photos: open the file, post it, and
  keep the \<^verbatim>\<open>file_id\<close> of every answer with status 200.\<close>

fun upload_photos ::
  "world \<Rightarrow> string \<Rightarrow> nat \<Rightarrow> string list \<Rightarrow> pyval list \<Rightarrow> sys \<Rightarrow> (exn + pyval list) \<times> sys"
where
  "upload_photos w api_url k [] uploaded_photos s = (Inr uploaded_photos, s)"
| "upload_photos w api_url k (photo_path # rest) uploaded_photos s =
     (let s1 = emit (OpenFile photo_path) s in
      case open_rb w photo_path of
        Some e \<Rightarrow> (Inl e, s1)
      | None \<Rightarrow>
          (let s2 = emit (PostUpload (api_url @ ''/upload'') photo_path) s1 in
           case post_upload w k photo_path of
             Inl e \<Rightarrow> (Inl e, s2)
           | Inr resp \<Rightarrow>
               if status_code resp = 200 then
                 (case json resp of
                    Inl e \<Rightarrow> (Inl e, s2)
                  | Inr body \<Rightarrow>
                      (case subscript body ''file_id'' of
                         Inl e \<Rightarrow> (Inl e, s2)
                       | Inr file_id \<Rightarrow>
                           upload_photos w api_url (Suc k) rest (uploaded_photos @ [file_id]) s2))
               else upload_photos w api_url (Suc k) rest uploaded_photos s2))"

text \<open>The branch of \<^verbatim>\<open>_real_generate\<close> taken when polling reports \<^verbatim>\<open>completed\<close>: create the
  directory, fetch the video, write it under the local job id, add \<^verbatim>\<open>video_path\<close>.\<close>

definition download_video ::
  "world \<Rightarrow> Config \<Rightarrow> string \<Rightarrow> job_result \<Rightarrow> sys \<Rightarrow> (exn + job_result) \<times> sys"
where
  "download_video w cfg job_id result s =
     (case result ''video_url'' of
        None \<Rightarrow> (Inl (KeyError ''video_url''), s)
      | Some video_url \<Rightarrow>
          (let videos_dir = video_storage_path cfg;
               s1 = emit (Mkdir videos_dir) s in
           case mkdir w videos_dir of
             Some e \<Rightarrow> (Inl e, s1)
           | None \<Rightarrow>
               (let video_path = joinpath w videos_dir (job_id @ ''.mp4'');
                    s2 = emit (GetUrl video_url) s1 in
                case get_url w video_url of
                  Inl e \<Rightarrow> (Inl e, s2)
                | Inr video_response \<Rightarrow>
                    (let s3 = emit (WriteBytes video_path (content video_response)) s2 in
                     case write_bytes w video_path (content video_response) of
                       Some e \<Rightarrow> (Inl e, s3)
                     | None \<Rightarrow>
                         (Inr (result(''video_path'' \<mapsto> PStr video_path)),
                          s3\<lparr>files := (files s3)(video_path \<mapsto> content video_response)\<rparr>)))))"

text \<open>The body of the \<^verbatim>\<open>try\<close> block of \<^verbatim>\<open>_real_generate\<close>: upload, submit, poll, download.\<close>

definition real_generate_try ::
  "world \<Rightarrow> Config \<Rightarrow> string \<Rightarrow> string \<Rightarrow> string list \<Rightarrow> sys \<Rightarrow> ((exn + job_result) \<times> sys) option"
where
  "real_generate_try w cfg job_id pr phs s =
     (let api_url = seedance_api_url cfg in
      case upload_photos w api_url 0 phs [] s of
        (Inl e, s1) \<Rightarrow> Some (Inl e, s1)
      | (Inr uploaded_photos, s1) \<Rightarrow>
          if uploaded_photos = [] then
            Some (Inr (failed_result (PStr job_id) (PStr ''Failed to upload photos'')), s1)
          else
            (let s2 = emit (PostGenerate (api_url @ ''/generate'') pr uploaded_photos) s1 in
             case post_generate w pr uploaded_photos of
               Inl e \<Rightarrow> Some (Inl e, s2)
             | Inr job_response \<Rightarrow>
                 if status_code job_response \<noteq> 200 then
                   Some (Inr (failed_result (PStr job_id) (PStr (resp_text job_response))), s2)
                 else
                   (case json job_response of
                      Inl e \<Rightarrow> Some (Inl e, s2)
                    | Inr body \<Rightarrow>
                        (case subscript body ''job_id'' of
                           Inl e \<Rightarrow> Some (Inl e, s2)
                         | Inr remote_job_id \<Rightarrow>
                             (case poll_for_completion w api_url remote_job_id 300 s2 of
                                None \<Rightarrow> None
                              | Some (Inl e, s3) \<Rightarrow> Some (Inl e, s3)
                              | Some (Inr result, s3) \<Rightarrow>
                                  (case result ''status'' of
                                     None \<Rightarrow> Some (Inl (KeyError ''status''), s3)
                                   | Some st \<Rightarrow>
                                       if st = PStr ''completed''
                                       then Some (download_video w cfg job_id result s3)
                                       else Some (Inr result, s3)))))))"

text \<open>\<^verbatim>\<open>_real_generate\<close>: the check of the API key, then the \<^verbatim>\<open>try\<close> block with its
  \<^verbatim>\<open>except Exception\<close> handler.\<close>

definition real_generate ::
  "world \<Rightarrow> Config \<Rightarrow> string \<Rightarrow> string \<Rightarrow> string list \<Rightarrow> sys \<Rightarrow> ((exn + job_result) \<times> sys) option"
where
  "real_generate w cfg job_id pr phs s =
     (if seedance_api_key cfg = '''' then
        Some (Inr (failed_result (PStr job_id) (PStr ''Seedance API key not configured'')), s)
      else
        (case real_generate_try w cfg job_id pr phs s of
           None \<Rightarrow> None
         | Some (Inl e, s') \<Rightarrow> Some (Inr (failed_result (PStr job_id) (PStr (str_exn e))), s')
         | Some (Inr result, s') \<Rightarrow> Some (Inr result, s')))"

text \<open>\<^verbatim>\<open>_mock_generate\<close>: sleep, create the directory, touch the placeholder. Nothing here
  is inside a \<^verbatim>\<open>try\<close>. \<^verbatim>\<open>touch\<close> leaves an existing file as it is.\<close>

definition mock_generate ::
  "world \<Rightarrow> Config \<Rightarrow> string \<Rightarrow> string \<Rightarrow> string list \<Rightarrow> sys \<Rightarrow> (exn + job_result) \<times> sys"
where
  "mock_generate w cfg job_id pr phs s =
     (let s1 = emit (Sleep 2) s;
          videos_dir = video_storage_path cfg;
          s2 = emit (Mkdir videos_dir) s1 in
      case mkdir w videos_dir of
        Some e \<Rightarrow> (Inl e, s2)
      | None \<Rightarrow>
          (let video_filename = job_id @ ''.mp4'';
               video_path = joinpath w videos_dir video_filename;
               s3 = emit (Touch video_path) s2 in
           case touch w video_path of
             Some e \<Rightarrow> (Inl e, s3)
           | None \<Rightarrow>
               (Inr [''job_id'' \<mapsto> PStr job_id,
                     ''status'' \<mapsto> PStr ''completed'',
                     ''video_path'' \<mapsto> PStr video_path,
                     ''prompt'' \<mapsto> PStr pr,
                     ''message'' \<mapsto> PStr ''Video generated (mock mode - until Feb 24)''],
                s3\<lparr>files := (files s3)(video_path \<mapsto>
                       (case files s3 video_path of None \<Rightarrow> '''' | Some c \<Rightarrow> c))\<rparr>)))"

text \<open>The job id \<^verbatim>\<open>generate_video\<close> works with: the caller's, or a fresh
  \<^verbatim>\<open>vid_\<close> followed by twelve hex digits.\<close>

definition local_job_id :: "world \<Rightarrow> string option \<Rightarrow> string" where
  "local_job_id w job_id_arg =
     (case job_id_arg of None \<Rightarrow> ''vid_'' @ take 12 (uuid4_hex w) | Some j \<Rightarrow> j)"

definition generate_video ::
  "world \<Rightarrow> Config \<Rightarrow> int \<Rightarrow> string \<Rightarrow> string list \<Rightarrow> string option \<Rightarrow> sys
     \<Rightarrow> ((exn + job_result) \<times> sys) option"
where
  "generate_video w cfg user_id pr phs job_id_arg s =
     (let job_id = local_job_id w job_id_arg in
      if mock_mode cfg then Some (mock_generate w cfg job_id pr phs s)
      else real_generate w cfg job_id pr phs s)"

section \<open>Notions used in the statements\<close>

text \<open>The events of polling from cycle \<open>k\<close> up to the clock reading of cycle \<open>n\<close> that ends
  it: a reading, a status query and a sleep per cycle, then the last reading.\<close>

definition poll_trace :: "world \<Rightarrow> string \<Rightarrow> pyval \<Rightarrow> nat \<Rightarrow> nat \<Rightarrow> event list" where
  "poll_trace w api_url remote_job_id k n =
     concat (map (\<lambda>j. [Now (now w (Suc j)), GetJob api_url remote_job_id, Sleep 5]) [k..<n])
     @ [Now (now w (Suc n))]"

text \<open>A status answer after which the loop goes on: any status code other than 200, or a
  JSON object whose \<^verbatim>\<open>status\<close> is neither \<^verbatim>\<open>completed\<close> nor \<^verbatim>\<open>failed\<close>.\<close>

definition still_pending :: "response \<Rightarrow> bool" where
  "still_pending resp \<longleftrightarrow>
     (if status_code resp = 200 then
        (case json resp of
           Inl e \<Rightarrow> False
         | Inr data \<Rightarrow>
             (case dict_get data ''status'' (PStr ''pending'') of
                Inl e \<Rightarrow> False
              | Inr status \<Rightarrow> status \<noteq> PStr ''completed'' \<and> status \<noteq> PStr ''failed''))
      else True)"

definition timeout_result :: "pyval \<Rightarrow> job_result" where
  "timeout_result remote_job_id =
     failed_result remote_job_id (PStr ''Timeout waiting for video generation'')"

section \<open>Scenarios\<close>

text \<open>
  Concrete environments and configurations on which the theorems are exercised.
  In \<open>calm_world\<close> every operation succeeds: uploads return a file id, the job is
  accepted as \<^verbatim>\<open>remote-1\<close> and reported completed at the first query, and the clock is
  read every five seconds. The others differ from it in one answer each.
\<close>

definition json_response :: "int \<Rightarrow> pyval \<Rightarrow> response" where
  "json_response code body =
     \<lparr>status_code = code, resp_text = '''', json = Inr body, content = ''''\<rparr>"

definition calm_world :: world where
  "calm_world =
     \<lparr>uuid4_hex = ''0123456789abcdef0123456789abcdef'',
      joinpath = (\<lambda>d f. d @ ''/'' @ f),
      mkdir = (\<lambda>d. None),
      touch = (\<lambda>p. None),
      write_bytes = (\<lambda>p c. None),
      open_rb = (\<lambda>p. None),
      post_upload = (\<lambda>k p. Inr (json_response 200 (PDict [(''file_id'', PStr (''f_'' @ p))]))),
      post_generate = (\<lambda>p r. Inr (json_response 200 (PDict [(''job_id'', PStr ''remote-1'')]))),
      get_job = (\<lambda>k r. Inr (json_response 200
                   (PDict [(''status'', PStr ''completed''), (''video_url'', PStr ''http://cdn/v'')]))),
      get_url = (\<lambda>u. Inr \<lparr>status_code = 200, resp_text = '''',
                          json = Inl (OtherError ''not JSON''), content = ''MP4''\<rparr>),
      now = (\<lambda>k. int k * 5000000)\<rparr>"

definition real_cfg :: Config where
  "real_cfg = \<lparr>seedance_api_key = ''sk-1'', seedance_api_url = ''https://api'',
               mock_mode = False, video_storage_path = ''videos''\<rparr>"

definition mock_cfg :: Config where
  "mock_cfg = \<lparr>seedance_api_key = '''', seedance_api_url = ''https://api'',
               mock_mode = True, video_storage_path = ''data/videos''\<rparr>"

definition sys0 :: sys where
  "sys0 = \<lparr>trace = [], files = Map.empty\<rparr>"

text \<open>The remote job never leaves \<^verbatim>\<open>pending\<close>.\<close>

definition pending_world :: world where
  "pending_world =
     calm_world\<lparr>get_job := (\<lambda>k r. Inr (json_response 200 (PDict [(''status'', PStr ''pending'')])))\<rparr>"

text \<open>The job stays pending and the service answers slowly: the loop tests the clock at
  0 s, at 295 s and at 500 s after the start.\<close>

definition slow_world :: world where
  "slow_world =
     pending_world\<lparr>now := (\<lambda>k. if k \<le> 1 then 0 else if k = 2 then 295000000 else 500000000)\<rparr>"

text \<open>Every upload is answered with status 503.\<close>

definition rejecting_world :: world where
  "rejecting_world = calm_world\<lparr>post_upload := (\<lambda>k p. Inr (json_response 503 PNone))\<rparr>"

text \<open>The parent of the storage directory does not exist, so \<^verbatim>\<open>mkdir\<close> raises.\<close>

definition nodir_world :: world where
  "nodir_world =
     calm_world\<lparr>mkdir := (\<lambda>d. Some (OtherError ''[Errno 2] No such file or directory''))\<rparr>"

text \<open>The storage directory is not writable, so \<^verbatim>\<open>touch\<close> raises.\<close>

definition readonly_world :: world where
  "readonly_world =
     calm_world\<lparr>touch := (\<lambda>p. Some (OtherError ''[Errno 13] Permission denied''))\<rparr>"

text \<open>The photo files are missing, so \<^verbatim>\<open>open\<close> raises.\<close>

definition nophoto_world :: world where
  "nophoto_world =
     calm_world\<lparr>open_rb := (\<lambda>p. Some (OtherError ''[Errno 2] No such file or directory''))\<rparr>"

text \<open>The first status query is answered with status 503, the later ones as in
  \<open>calm_world\<close>.\<close>

definition flaky_world :: world where
  "flaky_world =
     calm_world\<lparr>get_job := (\<lambda>k r. if k = 0 then Inr (json_response 503 PNone)
                                  else get_job calm_world k r)\<rparr>"

text \<open>The connection drops during a status query: the request raises.\<close>

definition dropped_world :: world where
  "dropped_world = calm_world\<lparr>get_job := (\<lambda>k r. Inl (OtherError ''connection reset''))\<rparr>"

text \<open>The connection drops while the finished video is fetched.\<close>

definition nodownload_world :: world where
  "nodownload_world = calm_world\<lparr>get_url := (\<lambda>u. Inl (OtherError ''connection reset''))\<rparr>"

section \<open>Properties of the session\<close>

lemma session_inv_init: "session_inv create_video_session"
  by (simp add: session_inv_def create_video_session_def)

lemma session_inv_apply_op: "session_inv s \<Longrightarrow> session_inv (apply_op s x)"
  by (cases x)
     (auto simp: session_inv_def add_photo_def set_prompt_def start_processing_def
        reset_def Let_def)

lemma session_inv_foldl: "session_inv s \<Longrightarrow> session_inv (foldl apply_op s ops)"
  by (induction ops arbitrary: s) (simp_all add: session_inv_apply_op)

lemma session_inv_run: "session_inv (run_session ops)"
  unfolding run_session_def by (rule session_inv_foldl [OF session_inv_init])

lemma add_photo_refused:
  assumes "session_inv s"
    and "length (photos s) = 4 \<or> state s \<notin> {Idle, CollectingPhotos}"
  shows "add_photo s p = (False, s)"
  using assms by (auto simp: session_inv_def add_photo_def Let_def)

lemma waiting_prompt_apply_op:
  assumes "state s = WaitingForPrompt \<longrightarrow> prompt s \<noteq> ''''" and "x \<noteq> SetPrompt ''''"
  shows "state (apply_op s x) = WaitingForPrompt \<longrightarrow> prompt (apply_op s x) \<noteq> ''''"
  using assms
  by (cases x)
     (auto simp: add_photo_def set_prompt_def start_processing_def reset_def Let_def)

lemma waiting_prompt_foldl:
  assumes "state s = WaitingForPrompt \<longrightarrow> prompt s \<noteq> ''''" and "SetPrompt '''' \<notin> set ops"
  shows "state (foldl apply_op s ops) = WaitingForPrompt
         \<longrightarrow> prompt (foldl apply_op s ops) \<noteq> ''''"
  using assms
proof (induction ops arbitrary: s)
  case Nil
  then show ?case by simp
next
  case (Cons x xs)
  from Cons.prems have "x \<noteq> SetPrompt ''''" and rest: "SetPrompt '''' \<notin> set xs"
    by auto
  with Cons.prems(1) have "state (apply_op s x) = WaitingForPrompt
      \<longrightarrow> prompt (apply_op s x) \<noteq> ''''"
    by (simp add: waiting_prompt_apply_op)
  from Cons.IH [OF this rest] show ?case by simp
qed

lemma processing_frozen:
  assumes "state s = Processing"
  shows "add_photo s p = (False, s)" and "start_processing s = s"
  using assms by (simp_all add: add_photo_def start_processing_def)

text \<open>
  C2. Whatever calls have been made on a session since its creation, it holds at most
  four photos; and an \<^verbatim>\<open>add_photo\<close> call on a session that already holds four photos, or
  whose state is neither idle nor collecting, returns \<^verbatim>\<open>False\<close> and leaves state, photos
  and prompt as they were.
\<close>

theorem add_photo_cap:
  "length (photos (run_session ops)) \<le> 4 \<and>
   (length (photos (run_session ops)) = 4 \<or>
      state (run_session ops) \<notin> {Idle, CollectingPhotos}
    \<longrightarrow> add_photo (run_session ops) p = (False, run_session ops))"
  using session_inv_run [of ops] add_photo_refused [of "run_session ops" p]
  by (auto simp: session_inv_def)

theorem add_photo_cap_witness:
  "length (photos (run_session [AddPhoto ''a'', AddPhoto ''b'', AddPhoto ''c'', AddPhoto ''d''])) = 4
   \<and> add_photo (run_session [AddPhoto ''a'', AddPhoto ''b'', AddPhoto ''c'', AddPhoto ''d'']) ''e''
       = (False, run_session [AddPhoto ''a'', AddPhoto ''b'', AddPhoto ''c'', AddPhoto ''d''])"
  using add_photo_cap [of "[AddPhoto ''a'', AddPhoto ''b'', AddPhoto ''c'', AddPhoto ''d'']" "''e''"]
  by (simp add: run_session_def add_photo_def create_video_session_def)

text \<open>
  C3. For every session, and so for every one reached from a fresh session,
  \<^verbatim>\<open>is_ready()\<close> is true (truthy, and then the very value \<^verbatim>\<open>True\<close>) exactly when there is
  at least one photo, the prompt is set (not the empty string) and the state is
  \<^verbatim>\<open>waiting_for_prompt\<close>.
\<close>

theorem is_ready_iff:
  "(truthy (is_ready s) \<longleftrightarrow>
      length (photos s) \<ge> 1 \<and> prompt s \<noteq> '''' \<and> state s = WaitingForPrompt) \<and>
   (is_ready s = PBool True \<longleftrightarrow>
      length (photos s) \<ge> 1 \<and> prompt s \<noteq> '''' \<and> state s = WaitingForPrompt)"
  by (simp add: is_ready_def)

text \<open>
  C4, as the code has it. \<^verbatim>\<open>set_prompt\<close> has no guard: from any state, \<^verbatim>\<open>processing\<close>
  included, it overwrites the prompt and moves the session to \<^verbatim>\<open>waiting_for_prompt\<close>,
  also with the empty text. So a session in \<^verbatim>\<open>waiting_for_prompt\<close> has its prompt set
  provided no \<^verbatim>\<open>set_prompt\<close> call was given the empty string; and a \<^verbatim>\<open>processing\<close> session
  is left unchanged by \<^verbatim>\<open>add_photo\<close> (which returns \<^verbatim>\<open>False\<close>), by \<^verbatim>\<open>start_processing\<close>
  and by \<^verbatim>\<open>is_ready\<close>, but not by \<^verbatim>\<open>set_prompt\<close>.
\<close>

theorem session_invariant_amended:
  "(SetPrompt '''' \<notin> set ops \<longrightarrow>
      state (run_session ops) = WaitingForPrompt \<longrightarrow> prompt (run_session ops) \<noteq> '''') \<and>
   (state s = Processing \<longrightarrow>
      add_photo s p = (False, s) \<and> start_processing s = s \<and> apply_op s IsReady = s) \<and>
   state (set_prompt s t) = WaitingForPrompt \<and> prompt (set_prompt s t) = t \<and>
   photos (set_prompt s t) = photos s"
proof -
  have "state create_video_session = WaitingForPrompt \<longrightarrow> prompt create_video_session \<noteq> ''''"
    by (simp add: create_video_session_def)
  then have "SetPrompt '''' \<notin> set ops \<Longrightarrow>
      state (run_session ops) = WaitingForPrompt \<longrightarrow> prompt (run_session ops) \<noteq> ''''"
    unfolding run_session_def by (rule waiting_prompt_foldl)
  moreover have "state s = Processing \<Longrightarrow>
      add_photo s p = (False, s) \<and> start_processing s = s \<and> apply_op s IsReady = s"
    by (simp add: processing_frozen)
  moreover have "state (set_prompt s t) = WaitingForPrompt \<and> prompt (set_prompt s t) = t \<and>
      photos (set_prompt s t) = photos s"
    by (simp add: set_prompt_def)
  ultimately show ?thesis by blast
qed

theorem session_invariant_amended_witness:
  "SetPrompt '''' \<notin> set [AddPhoto ''a.jpg'', SetPrompt ''dance''] \<and>
   state (run_session [AddPhoto ''a.jpg'', SetPrompt ''dance'']) = WaitingForPrompt \<and>
   prompt (run_session [AddPhoto ''a.jpg'', SetPrompt ''dance'']) \<noteq> '''' \<and>
   state (start_processing (run_session [AddPhoto ''a.jpg'', SetPrompt ''dance''])) = Processing \<and>
   add_photo (start_processing (run_session [AddPhoto ''a.jpg'', SetPrompt ''dance''])) ''b.jpg''
     = (False, start_processing (run_session [AddPhoto ''a.jpg'', SetPrompt ''dance'']))"
  using session_invariant_amended
    [of "[AddPhoto ''a.jpg'', SetPrompt ''dance'']"
        "start_processing (run_session [AddPhoto ''a.jpg'', SetPrompt ''dance''])"
        "''b.jpg''" "''walk''"]
  by (simp add: run_session_def add_photo_def set_prompt_def start_processing_def
        create_video_session_def)

text \<open>
  C4 as stated fails twice. After \<^verbatim>\<open>set_prompt("")\<close> on a fresh session the state is
  \<^verbatim>\<open>waiting_for_prompt\<close> and the prompt is unset; and \<^verbatim>\<open>set_prompt("walk")\<close> on a
  \<^verbatim>\<open>processing\<close> session changes it (back to \<^verbatim>\<open>waiting_for_prompt\<close>, with the new prompt).
\<close>

theorem session_invariant_counterexample:
  "state (run_session [SetPrompt '''']) = WaitingForPrompt \<and>
   prompt (run_session [SetPrompt '''']) = '''' \<and>
   state (run_session [AddPhoto ''a.jpg'', SetPrompt ''dance'', StartProcessing]) = Processing \<and>
   set_prompt (run_session [AddPhoto ''a.jpg'', SetPrompt ''dance'', StartProcessing]) ''walk''
     \<noteq> run_session [AddPhoto ''a.jpg'', SetPrompt ''dance'', StartProcessing] \<and>
   state (set_prompt (run_session [AddPhoto ''a.jpg'', SetPrompt ''dance'', StartProcessing]) ''walk'')
     = WaitingForPrompt"
  by (simp add: run_session_def add_photo_def set_prompt_def start_processing_def
        create_video_session_def)

section \<open>Properties of the generator\<close>

text \<open>The definitions a concrete run unfolds.\<close>

lemmas run_defs =
  generate_video_def real_generate_def real_generate_try_def mock_generate_def
  download_video_def poll_for_completion_def local_job_id_def emit_def failed_result_def
  td_seconds_def Let_def

lemma emit_trace [simp]: "trace (emit e s) = trace s @ [e]"
  by (simp add: emit_def)

lemma emit_files [simp]: "files (emit e s) = files s"
  by (simp add: emit_def)

lemma upload_photos_effects:
  "upload_photos w u k phs acc s = (r, s') \<Longrightarrow>
     files s' = files s \<and> filter is_submit (trace s') = filter is_submit (trace s)"
proof (induction phs arbitrary: k acc s)
  case Nil
  then show ?case by simp
next
  case (Cons p ps)
  then show ?case
    by (auto simp: Let_def split: option.splits sum.splits if_splits)
qed

lemma real_generate_never_raises:
  "real_generate w cfg job_id pr phs s \<noteq> Some (Inl e, s')"
  by (simp add: real_generate_def split: option.splits prod.splits sum.splits)

lemma real_generate_catches:
  assumes "seedance_api_key cfg \<noteq> ''''"
    and "real_generate_try w cfg job_id pr phs s = Some (Inl e, s')"
  shows "real_generate w cfg job_id pr phs s =
           Some (Inr (failed_result (PStr job_id) (PStr (str_exn e))), s')"
  using assms by (simp add: real_generate_def)

lemma mock_generate_raises_iff:
  "(\<exists>s'. mock_generate w cfg job_id pr phs s = (Inl e, s')) \<longleftrightarrow>
     mkdir w (video_storage_path cfg) = Some e \<or>
     (mkdir w (video_storage_path cfg) = None \<and>
      touch w (joinpath w (video_storage_path cfg) (job_id @ ''.mp4'')) = Some e)"
  by (auto simp: mock_generate_def Let_def split: option.splits)

lemma poll_loop_job_id:
  assumes "poll_loop w u rid mw k s = Some y"
  shows "\<forall>r s'. y = (Inr r, s') \<longrightarrow> r ''job_id'' = Some rid"
  by (rule poll_loop.raw_induct
        [where P = "\<lambda>w u rid mw k s y. \<forall>r s'. y = (Inr r, s') \<longrightarrow> r ''job_id'' = Some rid",
         OF _ assms])
     (auto simp: Let_def failed_result_def split: if_splits sum.splits)

lemma poll_for_completion_job_id:
  assumes "poll_for_completion w u rid mw s = Some (Inr r, s')"
  shows "r ''job_id'' = Some rid"
  using poll_loop_job_id [OF assms [unfolded poll_for_completion_def]] by simp

lemma download_video_fields:
  assumes "download_video w cfg job_id result s = (Inr r, s')"
  shows "r ''job_id'' = result ''job_id''"
    and "r ''status'' = result ''status''"
    and "r ''video_path'' = Some (PStr (joinpath w (video_storage_path cfg) (job_id @ ''.mp4'')))"
    and "files s' (joinpath w (video_storage_path cfg) (job_id @ ''.mp4'')) \<noteq> None"
  using assms
  by (auto simp: download_video_def Let_def split: option.splits sum.splits)

lemma pending_step:
  assumes "td_seconds (now w (Suc k) - now w 0) < max_wait"
    and "get_job w k rid = Inr resp"
    and "still_pending resp"
  shows "poll_loop w u rid max_wait k s =
         poll_loop w u rid max_wait (Suc k)
           (emit (Sleep 5) (emit (GetJob u rid) (emit (Now (now w (Suc k))) s)))"
  using assms
  by (subst poll_loop.simps)
     (auto simp: still_pending_def Let_def split: sum.splits if_splits)

lemma raising_step:
  assumes "td_seconds (now w (Suc k) - now w 0) < max_wait"
    and "get_job w k rid = Inl e"
  shows "poll_loop w u rid max_wait k s =
         Some (Inl e, emit (GetJob u rid) (emit (Now (now w (Suc k))) s))"
  using assms by (subst poll_loop.simps) (simp add: Let_def)

lemma deadline_step:
  assumes "\<not> td_seconds (now w (Suc k) - now w 0) < max_wait"
  shows "poll_loop w u rid max_wait k s =
         Some (Inr (timeout_result rid), emit (Now (now w (Suc k))) s)"
  using assms by (subst poll_loop.simps) (simp add: Let_def timeout_result_def)

lemma td_seconds_in_day:
  assumes "0 \<le> d" and "d < 86400000000"
  shows "td_seconds d = d div 1000000"
  using assms by (simp add: td_seconds_def)

lemma td_seconds_less:
  assumes "0 \<le> d" and "d < m * 1000000" and "d < 86400000000"
  shows "td_seconds d < m"
proof -
  have "d = 1000000 * (d div 1000000) + d mod 1000000"
    by simp
  moreover have "0 \<le> d mod 1000000"
    by simp
  ultimately have "d div 1000000 < m"
    using assms(2) by linarith
  then show ?thesis
    using assms by (simp add: td_seconds_in_day)
qed

lemma td_seconds_reached:
  assumes "m * 1000000 \<le> d" and "0 \<le> d" and "d < 86400000000"
  shows "\<not> td_seconds d < m"
proof -
  have "d = 1000000 * (d div 1000000) + d mod 1000000"
    by simp
  moreover have "d mod 1000000 < 1000000"
    by simp
  ultimately have "m \<le> d div 1000000"
    using assms(1) by linarith
  then show ?thesis
    using assms by (simp add: td_seconds_in_day)
qed

lemma poll_trace_same: "poll_trace w u rid n n = [Now (now w (Suc n))]"
  by (simp add: poll_trace_def)

lemma poll_trace_step:
  "k < n \<Longrightarrow> poll_trace w u rid k n =
     [Now (now w (Suc k)), GetJob u rid, Sleep 5] @ poll_trace w u rid (Suc k) n"
  by (simp add: poll_trace_def upt_conv_Cons)

lemma poll_loop_until:
  assumes pend: "\<forall>j. \<exists>resp. get_job w j rid = Inr resp \<and> still_pending resp"
    and before: "\<forall>j. k \<le> j \<and> j < n \<longrightarrow> td_seconds (now w (Suc j) - now w 0) < max_wait"
    and at_n: "\<not> td_seconds (now w (Suc n) - now w 0) < max_wait"
    and le: "k \<le> n"
  shows "poll_loop w u rid max_wait k s =
         Some (Inr (timeout_result rid), s\<lparr>trace := trace s @ poll_trace w u rid k n\<rparr>)"
  using before le
proof (induction "n - k" arbitrary: k s)
  case 0
  then have "k = n" by simp
  with at_n show ?case
    by (simp add: deadline_step poll_trace_same emit_def)
next
  case (Suc d)
  then have lt: "k < n" by simp
  with Suc.prems have open_k: "td_seconds (now w (Suc k) - now w 0) < max_wait"
    by simp
  from pend obtain resp where resp: "get_job w k rid = Inr resp" "still_pending resp"
    by blast
  have rest: "\<forall>j. Suc k \<le> j \<and> j < n \<longrightarrow> td_seconds (now w (Suc j) - now w 0) < max_wait"
    using Suc.prems by simp
  have "d = n - Suc k" using Suc.hyps(2) by simp
  from Suc.hyps(1) [OF this rest] lt
  have "poll_loop w u rid max_wait (Suc k)
          (emit (Sleep 5) (emit (GetJob u rid) (emit (Now (now w (Suc k))) s))) =
        Some (Inr (timeout_result rid),
          (emit (Sleep 5) (emit (GetJob u rid) (emit (Now (now w (Suc k))) s)))
            \<lparr>trace := trace (emit (Sleep 5) (emit (GetJob u rid) (emit (Now (now w (Suc k))) s)))
               @ poll_trace w u rid (Suc k) n\<rparr>)"
    by simp
  then show ?case
    using lt by (simp add: pending_step [OF open_k resp] poll_trace_step emit_def)
qed

lemma clock_growth:
  assumes first: "now w 0 \<le> now w 1"
    and step_lo: "\<forall>j. now w (Suc j) + 5000000 \<le> now w (Suc (Suc j))"
  shows "int j * 5000000 \<le> now w (Suc j) - now w 0"
proof (induction j)
  case 0
  then show ?case using first by simp
next
  case (Suc j)
  moreover have "now w (Suc j) + 5000000 \<le> now w (Suc (Suc j))"
    using step_lo by blast
  ultimately show ?case by (simp add: algebra_simps)
qed

text \<open>
  C9. In real mode with no API key configured, \<^verbatim>\<open>generate_video\<close> returns the failed
  result with the message \<^verbatim>\<open>Seedance API key not configured\<close>, and the state it returns
  is the one it was given: no event at all, so no network call, has happened.
\<close>

theorem no_credential_fails_fast:
  assumes "\<not> mock_mode cfg" and "seedance_api_key cfg = ''''"
  shows "generate_video w cfg uid pr phs jid s =
           Some (Inr (failed_result (PStr (local_job_id w jid))
                        (PStr ''Seedance API key not configured'')), s)"
  using assms by (simp add: generate_video_def real_generate_def)

theorem no_credential_fails_fast_witness:
  "generate_video calm_world (real_cfg\<lparr>seedance_api_key := ''''\<rparr>) 7 ''dance'' [''a.jpg'']
     (Some ''job1'') sys0 =
   Some (Inr (failed_result (PStr ''job1'') (PStr ''Seedance API key not configured'')), sys0)"
  using no_credential_fails_fast
    [of "real_cfg\<lparr>seedance_api_key := ''''\<rparr>" calm_world 7 "''dance''" "[''a.jpg'']"
        "Some ''job1''" sys0]
  by (simp add: real_cfg_def local_job_id_def)

text \<open>
  C6. In real mode with a key, when the upload loop runs to its end and has collected no
  file id (every answer had a status other than 200, or there was no photo at all), then
  \<^verbatim>\<open>generate_video\<close> returns the failed result \<^verbatim>\<open>Failed to upload photos\<close>, and it stops
  in the state the upload loop left: the submit request is never issued.
\<close>

theorem zero_uploads_fail_without_submit:
  assumes "\<not> mock_mode cfg" and "seedance_api_key cfg \<noteq> ''''"
    and "upload_photos w (seedance_api_url cfg) 0 phs [] s = (Inr [], s1)"
  shows "generate_video w cfg uid pr phs jid s =
           Some (Inr (failed_result (PStr (local_job_id w jid))
                        (PStr ''Failed to upload photos'')), s1) \<and>
         filter is_submit (trace s1) = filter is_submit (trace s)"
  using assms upload_photos_effects [OF assms(3)]
  by (simp add: generate_video_def real_generate_def real_generate_try_def)

theorem zero_uploads_fail_without_submit_witness:
  "generate_video rejecting_world real_cfg 7 ''dance'' [''a.jpg'', ''b.jpg''] (Some ''job1'') sys0 =
   Some (Inr (failed_result (PStr ''job1'') (PStr ''Failed to upload photos'')),
         \<lparr>trace = [OpenFile ''a.jpg'', PostUpload ''https://api/upload'' ''a.jpg'',
                   OpenFile ''b.jpg'', PostUpload ''https://api/upload'' ''b.jpg''],
          files = Map.empty\<rparr>) \<and>
   generate_video rejecting_world real_cfg 7 ''dance'' [] (Some ''job1'') sys0 =
   Some (Inr (failed_result (PStr ''job1'') (PStr ''Failed to upload photos'')), sys0)"
proof -
  have real: "\<not> mock_mode real_cfg" and key: "seedance_api_key real_cfg \<noteq> ''''"
    by (simp_all add: real_cfg_def)
  have two: "upload_photos rejecting_world (seedance_api_url real_cfg) 0 [''a.jpg'', ''b.jpg''] [] sys0
      = (Inr [], \<lparr>trace = [OpenFile ''a.jpg'', PostUpload ''https://api/upload'' ''a.jpg'',
                   OpenFile ''b.jpg'', PostUpload ''https://api/upload'' ''b.jpg''],
          files = Map.empty\<rparr>)"
    by (simp add: rejecting_world_def calm_world_def json_response_def real_cfg_def
          sys0_def emit_def Let_def)
  have none: "upload_photos rejecting_world (seedance_api_url real_cfg) 0 [] [] sys0 = (Inr [], sys0)"
    by simp
  from zero_uploads_fail_without_submit [OF real key two, of 7 "''dance''" "Some ''job1''"]
    zero_uploads_fail_without_submit [OF real key none, of 7 "''dance''" "Some ''job1''"]
  show ?thesis by (simp add: local_job_id_def)
qed

text \<open>
  C5, as the code has it. In mock mode, for every prompt and every list of photos,
  provided that creating the storage directory and touching the placeholder file raise
  nothing, \<^verbatim>\<open>generate_video\<close> returns a result with status \<^verbatim>\<open>completed\<close> whose \<^verbatim>\<open>video_path\<close>
  is the storage directory joined with the job id and \<^verbatim>\<open>.mp4\<close>; that file exists when the
  call returns, and the call has slept, created the directory and touched the file, and
  made no network request.
\<close>

theorem mock_generate_completes:
  assumes "mock_mode cfg"
    and "mkdir w (video_storage_path cfg) = None"
    and "touch w (joinpath w (video_storage_path cfg) (local_job_id w jid @ ''.mp4'')) = None"
  shows "\<exists>r s'. generate_video w cfg uid pr phs jid s = Some (Inr r, s') \<and>
           r ''job_id'' = Some (PStr (local_job_id w jid)) \<and>
           r ''status'' = Some (PStr ''completed'') \<and>
           r ''video_path'' =
             Some (PStr (joinpath w (video_storage_path cfg) (local_job_id w jid @ ''.mp4''))) \<and>
           files s' (joinpath w (video_storage_path cfg) (local_job_id w jid @ ''.mp4'')) \<noteq> None \<and>
           trace s' = trace s @ [Sleep 2, Mkdir (video_storage_path cfg),
             Touch (joinpath w (video_storage_path cfg) (local_job_id w jid @ ''.mp4''))] \<and>
           filter is_network (trace s') = filter is_network (trace s)"
  using assms by (simp add: generate_video_def mock_generate_def Let_def)

theorem mock_generate_completes_witness:
  "\<exists>r s'. generate_video calm_world mock_cfg 7 ''dance'' [''a.jpg''] None sys0 = Some (Inr r, s') \<and>
     r ''job_id'' = Some (PStr ''vid_0123456789ab'') \<and>
     r ''status'' = Some (PStr ''completed'') \<and>
     r ''video_path'' = Some (PStr ''data/videos/vid_0123456789ab.mp4'') \<and>
     files s' ''data/videos/vid_0123456789ab.mp4'' \<noteq> None \<and>
     trace s' = [Sleep 2, Mkdir ''data/videos'', Touch ''data/videos/vid_0123456789ab.mp4'']"
proof -
  have path: "joinpath calm_world ''data/videos'' ''vid_0123456789ab.mp4'' =
      ''data/videos/vid_0123456789ab.mp4''"
    and jid: "local_job_id calm_world None = ''vid_0123456789ab''"
    by (simp_all add: calm_world_def json_response_def mock_cfg_def sys0_def
          local_job_id_def)
  have mock: "mock_mode mock_cfg"
    and dir_ok: "mkdir calm_world (video_storage_path mock_cfg) = None"
    and file_ok: "touch calm_world (joinpath calm_world (video_storage_path mock_cfg)
      (local_job_id calm_world None @ ''.mp4'')) = None"
    by (simp_all add: calm_world_def json_response_def mock_cfg_def sys0_def)
  have dir: "video_storage_path mock_cfg = ''data/videos''" and tr: "trace sys0 = []"
    by (simp_all add: calm_world_def json_response_def mock_cfg_def sys0_def)
  from mock_generate_completes [OF mock dir_ok file_ok, of 7 "''dance''" "[''a.jpg'']" sys0]
  show ?thesis
    by (auto simp: jid dir tr path)
qed

text \<open>
  C5 as stated, for every prompt and every list of photos, fails where the file system
  does: with a storage directory that is not writable, \<^verbatim>\<open>touch\<close> raises, and the mock call
  returns no result at all; the exception leaves \<^verbatim>\<open>generate_video\<close>.
\<close>

theorem mock_generate_counterexample:
  "generate_video readonly_world mock_cfg 7 ''dance'' [''a.jpg''] (Some ''job1'') sys0 =
   Some (Inl (OtherError ''[Errno 13] Permission denied''),
         \<lparr>trace = [Sleep 2, Mkdir ''data/videos'', Touch ''data/videos/job1.mp4''],
          files = Map.empty\<rparr>)"
  by (simp add: readonly_world_def calm_world_def mock_cfg_def
        sys0_def run_defs)

text \<open>
  C1, as the code has it. In real mode no exception leaves \<^verbatim>\<open>generate_video\<close>: whenever
  the upload, submit, poll or download phase raises \<open>e\<close>, the handler of \<^verbatim>\<open>_real_generate\<close>
  turns it into the failed result whose error is \<^verbatim>\<open>str(e)\<close>. In mock mode there is no
  handler: \<^verbatim>\<open>generate_video\<close> raises exactly when creating the storage directory or
  touching the placeholder file raises.
\<close>

theorem exceptions_caught_in_real_mode:
  "(\<not> mock_mode cfg \<longrightarrow>
      generate_video w cfg uid pr phs jid s \<noteq> Some (Inl e, s') \<and>
      (seedance_api_key cfg \<noteq> '''' \<longrightarrow>
       real_generate_try w cfg (local_job_id w jid) pr phs s = Some (Inl e, s') \<longrightarrow>
       generate_video w cfg uid pr phs jid s =
         Some (Inr (failed_result (PStr (local_job_id w jid)) (PStr (str_exn e))), s'))) \<and>
   (mock_mode cfg \<longrightarrow>
      ((\<exists>s'. generate_video w cfg uid pr phs jid s = Some (Inl e, s')) \<longleftrightarrow>
         mkdir w (video_storage_path cfg) = Some e \<or>
         (mkdir w (video_storage_path cfg) = None \<and>
          touch w (joinpath w (video_storage_path cfg) (local_job_id w jid @ ''.mp4'')) = Some e)))"
proof (intro conjI impI)
  assume "\<not> mock_mode cfg"
  then show "generate_video w cfg uid pr phs jid s \<noteq> Some (Inl e, s')"
    by (simp add: generate_video_def real_generate_never_raises)
next
  assume "\<not> mock_mode cfg" and "seedance_api_key cfg \<noteq> ''''"
    and "real_generate_try w cfg (local_job_id w jid) pr phs s = Some (Inl e, s')"
  then show "generate_video w cfg uid pr phs jid s =
      Some (Inr (failed_result (PStr (local_job_id w jid)) (PStr (str_exn e))), s')"
    by (simp add: generate_video_def real_generate_catches)
next
  assume "mock_mode cfg"
  then show "(\<exists>s'. generate_video w cfg uid pr phs jid s = Some (Inl e, s')) \<longleftrightarrow>
      mkdir w (video_storage_path cfg) = Some e \<or>
      (mkdir w (video_storage_path cfg) = None \<and>
       touch w (joinpath w (video_storage_path cfg) (local_job_id w jid @ ''.mp4'')) = Some e)"
    using mock_generate_raises_iff [of w cfg "local_job_id w jid" pr phs s e]
    by (simp add: generate_video_def)
qed

theorem exceptions_caught_in_real_mode_witness:
  "generate_video nophoto_world real_cfg 7 ''dance'' [''a.jpg''] (Some ''job1'') sys0 =
     Some (Inr (failed_result (PStr ''job1'') (PStr ''[Errno 2] No such file or directory'')),
           \<lparr>trace = [OpenFile ''a.jpg''], files = Map.empty\<rparr>) \<and>
   (\<exists>s'. generate_video nodir_world mock_cfg 7 ''dance'' [''a.jpg''] (Some ''job1'') sys0 =
      Some (Inl (OtherError ''[Errno 2] No such file or directory''), s'))"
proof -
  have real: "\<not> mock_mode real_cfg" and key: "seedance_api_key real_cfg \<noteq> ''''"
    and mock: "mock_mode mock_cfg"
    by (simp_all add: real_cfg_def mock_cfg_def)
  have raised: "real_generate_try nophoto_world real_cfg (local_job_id nophoto_world (Some ''job1''))
      ''dance'' [''a.jpg''] sys0 =
      Some (Inl (OtherError ''[Errno 2] No such file or directory''),
            \<lparr>trace = [OpenFile ''a.jpg''], files = Map.empty\<rparr>)"
    by (simp add: nophoto_world_def nodir_world_def calm_world_def json_response_def
          real_cfg_def mock_cfg_def sys0_def run_defs)
  have nodir: "mkdir nodir_world (video_storage_path mock_cfg) =
      Some (OtherError ''[Errno 2] No such file or directory'')"
    by (simp add: nophoto_world_def nodir_world_def calm_world_def json_response_def
          real_cfg_def mock_cfg_def sys0_def)
  from exceptions_caught_in_real_mode
      [of real_cfg nophoto_world 7 "''dance''" "[''a.jpg'']" "Some ''job1''" sys0
          "OtherError ''[Errno 2] No such file or directory''"
          "\<lparr>trace = [OpenFile ''a.jpg''], files = Map.empty\<rparr>"]
    exceptions_caught_in_real_mode
      [of mock_cfg nodir_world 7 "''dance''" "[''a.jpg'']" "Some ''job1''" sys0
          "OtherError ''[Errno 2] No such file or directory''"]
    real key mock raised nodir
  show ?thesis by (simp add: local_job_id_def)
qed

text \<open>
  C1 as stated covers mock mode too, and fails there: when the parent of the storage
  directory does not exist, \<^verbatim>\<open>mkdir\<close> raises and the exception leaves \<^verbatim>\<open>generate_video\<close>.
\<close>

theorem exceptions_caught_counterexample:
  "generate_video nodir_world mock_cfg 7 ''dance'' [''a.jpg''] (Some ''job1'') sys0 =
   Some (Inl (OtherError ''[Errno 2] No such file or directory''),
         \<lparr>trace = [Sleep 2, Mkdir ''data/videos''], files = Map.empty\<rparr>)"
  by (simp add: nodir_world_def calm_world_def mock_cfg_def
        sys0_def run_defs)

text \<open>
  C10, as the code has it. In real mode, when the submit request is answered with
  status 200 and a \<^verbatim>\<open>job_id\<close>, and neither polling nor the download raises, the \<^verbatim>\<open>job_id\<close> of
  the result is that remote handle, not the local job id; and if the result is
  \<^verbatim>\<open>completed\<close>, its \<^verbatim>\<open>video_path\<close> is the file named after the local job id, which has been
  written.
\<close>

theorem result_carries_remote_job_id:
  assumes real: "\<not> mock_mode cfg" and key: "seedance_api_key cfg \<noteq> ''''"
    and up: "upload_photos w (seedance_api_url cfg) 0 phs [] s = (Inr ups, s1)"
    and some: "ups \<noteq> []"
    and sub: "post_generate w pr ups = Inr jr" "status_code jr = 200"
      "json jr = Inr body" "subscript body ''job_id'' = Inr rid"
    and ok: "real_generate_try w cfg (local_job_id w jid) pr phs s = Some (Inr r, s')"
  shows "generate_video w cfg uid pr phs jid s = Some (Inr r, s') \<and>
         r ''job_id'' = Some rid \<and>
         (r ''status'' = Some (PStr ''completed'') \<longrightarrow>
            r ''video_path'' =
              Some (PStr (joinpath w (video_storage_path cfg) (local_job_id w jid @ ''.mp4''))) \<and>
            files s' (joinpath w (video_storage_path cfg) (local_job_id w jid @ ''.mp4'')) \<noteq> None)"
proof -
  let ?s2 = "emit (PostGenerate (seedance_api_url cfg @ ''/generate'') pr ups) s1"
  from ok up some sub
  obtain pres s3 st where
    poll: "poll_for_completion w (seedance_api_url cfg) rid 300 ?s2 = Some (Inr pres, s3)"
    and st: "pres ''status'' = Some st"
    and fin: "if st = PStr ''completed''
              then download_video w cfg (local_job_id w jid) pres s3 = (Inr r, s')
              else r = pres \<and> s' = s3"
    by (auto simp: real_generate_try_def Let_def
          split: option.splits sum.splits prod.splits if_splits)
  have rid: "pres ''job_id'' = Some rid"
    using poll by (rule poll_for_completion_job_id)
  have gen: "generate_video w cfg uid pr phs jid s = Some (Inr r, s')"
    using real key ok by (simp add: generate_video_def real_generate_def)
  show ?thesis
  proof (cases "st = PStr ''completed''")
    case True
    with fin have dl: "download_video w cfg (local_job_id w jid) pres s3 = (Inr r, s')"
      by simp
    from download_video_fields [OF dl] rid gen show ?thesis by simp
  next
    case False
    with fin st rid gen show ?thesis by simp
  qed
qed

theorem result_carries_remote_job_id_witness:
  "\<exists>r s'. generate_video calm_world real_cfg 7 ''dance'' [''a.jpg''] (Some ''job1'') sys0 =
       Some (Inr r, s') \<and>
     r ''job_id'' = Some (PStr ''remote-1'') \<and>
     r ''status'' = Some (PStr ''completed'') \<and>
     r ''video_path'' = Some (PStr ''videos/job1.mp4'') \<and>
     files s' ''videos/job1.mp4'' \<noteq> None"
proof -
  have real: "\<not> mock_mode real_cfg" and key: "seedance_api_key real_cfg \<noteq> ''''"
    by (simp_all add: real_cfg_def)
  have up: "upload_photos calm_world (seedance_api_url real_cfg) 0 [''a.jpg''] [] sys0 =
      (Inr [PStr ''f_a.jpg''],
       \<lparr>trace = [OpenFile ''a.jpg'', PostUpload ''https://api/upload'' ''a.jpg''],
        files = Map.empty\<rparr>)"
    by (simp add: calm_world_def json_response_def real_cfg_def sys0_def emit_def
          Let_def)
  have some: "[PStr ''f_a.jpg''] \<noteq> []"
    by simp
  have sub: "post_generate calm_world ''dance'' [PStr ''f_a.jpg''] =
      Inr (json_response 200 (PDict [(''job_id'', PStr ''remote-1'')]))"
    "status_code (json_response 200 (PDict [(''job_id'', PStr ''remote-1'')])) = 200"
    "json (json_response 200 (PDict [(''job_id'', PStr ''remote-1'')])) =
      Inr (PDict [(''job_id'', PStr ''remote-1'')])"
    "subscript (PDict [(''job_id'', PStr ''remote-1'')]) ''job_id'' = Inr (PStr ''remote-1'')"
    by (simp_all add: calm_world_def json_response_def real_cfg_def sys0_def)
  have ok: "real_generate_try calm_world real_cfg (local_job_id calm_world (Some ''job1''))
      ''dance'' [''a.jpg''] sys0 =
      Some (Inr [''job_id'' \<mapsto> PStr ''remote-1'', ''status'' \<mapsto> PStr ''completed'',
                 ''video_url'' \<mapsto> PStr ''http://cdn/v'',
                 ''video_path'' \<mapsto> PStr ''videos/job1.mp4''],
            \<lparr>trace =
               [OpenFile ''a.jpg'', PostUpload ''https://api/upload'' ''a.jpg'',
                PostGenerate ''https://api/generate'' ''dance'' [PStr ''f_a.jpg''],
                Now 0, Now 5000000, GetJob ''https://api'' (PStr ''remote-1''),
                Mkdir ''videos'', GetUrl (PStr ''http://cdn/v''),
                WriteBytes ''videos/job1.mp4'' ''MP4''],
             files = [''videos/job1.mp4'' \<mapsto> ''MP4'']\<rparr>)"
    by (simp add: calm_world_def json_response_def real_cfg_def sys0_def run_defs
          poll_loop.simps)
  have path: "joinpath calm_world (video_storage_path real_cfg)
      (local_job_id calm_world (Some ''job1'') @ ''.mp4'') = ''videos/job1.mp4''"
    by (simp add: calm_world_def json_response_def real_cfg_def sys0_def
          local_job_id_def)
  from result_carries_remote_job_id [OF real key up some sub ok, of 7]
  show ?thesis
    unfolding path by auto
qed

text \<open>
  C10 as stated, whenever the submit phase succeeds, fails when a later phase raises.
  Here the job is submitted and reported completed, the download of the video raises,
  and the handler answers with the local job id \<^verbatim>\<open>job1\<close>, not with \<^verbatim>\<open>remote-1\<close>.
\<close>

theorem result_job_id_counterexample:
  "post_generate nodownload_world ''dance'' [PStr ''f_a.jpg''] =
     Inr (json_response 200 (PDict [(''job_id'', PStr ''remote-1'')])) \<and>
   generate_video nodownload_world real_cfg 7 ''dance'' [''a.jpg''] (Some ''job1'') sys0 =
     Some (Inr (failed_result (PStr ''job1'') (PStr ''connection reset'')),
           \<lparr>trace = [OpenFile ''a.jpg'', PostUpload ''https://api/upload'' ''a.jpg'',
                     PostGenerate ''https://api/generate'' ''dance'' [PStr ''f_a.jpg''],
                     Now 0, Now 5000000, GetJob ''https://api'' (PStr ''remote-1''),
                     Mkdir ''videos'', GetUrl (PStr ''http://cdn/v'')],
            files = Map.empty\<rparr>) \<and>
   failed_result (PStr ''job1'') (PStr ''connection reset'') ''job_id'' \<noteq> Some (PStr ''remote-1'')"
  by (simp add: nodownload_world_def calm_world_def json_response_def real_cfg_def
        sys0_def run_defs poll_loop.simps)

text \<open>
  C8, as the code has it. Within the deadline, a status query answered with a status
  code other than 200 counts as still pending: the loop sleeps five seconds and goes on
  with the next cycle. A status query that raises is not retried: the exception ends the
  loop and leaves \<^verbatim>\<open>_poll_for_completion\<close>.
\<close>

theorem poll_error_response_retries:
  "(td_seconds (now w (Suc k) - now w 0) < max_wait \<longrightarrow>
      get_job w k rid = Inr resp \<longrightarrow> status_code resp \<noteq> 200 \<longrightarrow>
      poll_loop w u rid max_wait k s =
        poll_loop w u rid max_wait (Suc k)
          (emit (Sleep 5) (emit (GetJob u rid) (emit (Now (now w (Suc k))) s)))) \<and>
   (td_seconds (now w (Suc k) - now w 0) < max_wait \<longrightarrow>
      get_job w k rid = Inl e \<longrightarrow>
      poll_loop w u rid max_wait k s =
        Some (Inl e, emit (GetJob u rid) (emit (Now (now w (Suc k))) s)))"
proof (intro conjI impI)
  assume open_k: "td_seconds (now w (Suc k) - now w 0) < max_wait"
    and resp: "get_job w k rid = Inr resp" and code: "status_code resp \<noteq> 200"
  from code have "still_pending resp"
    by (simp add: still_pending_def)
  with open_k resp show "poll_loop w u rid max_wait k s =
      poll_loop w u rid max_wait (Suc k)
        (emit (Sleep 5) (emit (GetJob u rid) (emit (Now (now w (Suc k))) s)))"
    by (rule pending_step)
next
  assume "td_seconds (now w (Suc k) - now w 0) < max_wait" and "get_job w k rid = Inl e"
  then show "poll_loop w u rid max_wait k s =
      Some (Inl e, emit (GetJob u rid) (emit (Now (now w (Suc k))) s))"
    by (rule raising_step)
qed

theorem poll_error_response_retries_witness:
  "poll_loop flaky_world ''https://api'' (PStr ''remote-1'') 300 0 sys0 =
     poll_loop flaky_world ''https://api'' (PStr ''remote-1'') 300 1
       \<lparr>trace = [Now 5000000, GetJob ''https://api'' (PStr ''remote-1''), Sleep 5],
        files = Map.empty\<rparr> \<and>
   poll_loop flaky_world ''https://api'' (PStr ''remote-1'') 300 1
       \<lparr>trace = [Now 5000000, GetJob ''https://api'' (PStr ''remote-1''), Sleep 5],
        files = Map.empty\<rparr> =
     Some (Inr [''job_id'' \<mapsto> PStr ''remote-1'', ''status'' \<mapsto> PStr ''completed'',
                ''video_url'' \<mapsto> PStr ''http://cdn/v''],
           \<lparr>trace = [Now 5000000, GetJob ''https://api'' (PStr ''remote-1''), Sleep 5,
                     Now 10000000, GetJob ''https://api'' (PStr ''remote-1'')],
            files = Map.empty\<rparr>) \<and>
   poll_loop dropped_world ''https://api'' (PStr ''remote-1'') 300 0 sys0 =
     Some (Inl (OtherError ''connection reset''),
           \<lparr>trace = [Now 5000000, GetJob ''https://api'' (PStr ''remote-1'')],
            files = Map.empty\<rparr>)"
proof -
  have open_f: "td_seconds (now flaky_world (Suc 0) - now flaky_world 0) < 300"
    and open_d: "td_seconds (now dropped_world (Suc 0) - now dropped_world 0) < 300"
    by (simp_all add: flaky_world_def dropped_world_def calm_world_def json_response_def sys0_def td_seconds_def)
  have clock: "now flaky_world (Suc 0) = 5000000" "now dropped_world (Suc 0) = 5000000"
    by (simp_all add: flaky_world_def dropped_world_def calm_world_def json_response_def sys0_def)
  have resp: "get_job flaky_world 0 (PStr ''remote-1'') = Inr (json_response 503 PNone)"
    and code: "status_code (json_response 503 PNone) \<noteq> 200"
    and drop: "get_job dropped_world 0 (PStr ''remote-1'') = Inl (OtherError ''connection reset'')"
    by (simp_all add: flaky_world_def dropped_world_def calm_world_def json_response_def sys0_def)
  have "poll_loop flaky_world ''https://api'' (PStr ''remote-1'') 300 1
       \<lparr>trace = [Now 5000000, GetJob ''https://api'' (PStr ''remote-1''), Sleep 5],
        files = Map.empty\<rparr> =
     Some (Inr [''job_id'' \<mapsto> PStr ''remote-1'', ''status'' \<mapsto> PStr ''completed'',
                ''video_url'' \<mapsto> PStr ''http://cdn/v''],
           \<lparr>trace = [Now 5000000, GetJob ''https://api'' (PStr ''remote-1''), Sleep 5,
                     Now 10000000, GetJob ''https://api'' (PStr ''remote-1'')],
            files = Map.empty\<rparr>)"
    by (simp add: flaky_world_def dropped_world_def calm_world_def json_response_def sys0_def run_defs poll_loop.simps)
  with poll_error_response_retries
      [of flaky_world 0 300 "PStr ''remote-1''" "json_response 503 PNone" "''https://api''" sys0]
    poll_error_response_retries
      [of dropped_world 0 300 "PStr ''remote-1''" _ "''https://api''" sys0
          "OtherError ''connection reset''"]
    open_f open_d resp code drop
  show ?thesis
    by (simp add: emit_def sys0_def clock)
qed

text \<open>
  C8 as stated fails for a request that errors by raising. The connection drops at the
  first status query, well within the deadline and with no terminal status reported:
  polling ends there with the exception, without sleeping or retrying, and
  \<^verbatim>\<open>generate_video\<close> returns a failed result on account of that very error.
\<close>

theorem poll_error_counterexample:
  "poll_for_completion dropped_world ''https://api'' (PStr ''remote-1'') 300 sys0 =
     Some (Inl (OtherError ''connection reset''),
           \<lparr>trace = [Now 0, Now 5000000, GetJob ''https://api'' (PStr ''remote-1'')],
            files = Map.empty\<rparr>) \<and>
   generate_video dropped_world real_cfg 7 ''dance'' [''a.jpg''] (Some ''job1'') sys0 =
     Some (Inr (failed_result (PStr ''job1'') (PStr ''connection reset'')),
           \<lparr>trace = [OpenFile ''a.jpg'', PostUpload ''https://api/upload'' ''a.jpg'',
                     PostGenerate ''https://api/generate'' ''dance'' [PStr ''f_a.jpg''],
                     Now 0, Now 5000000, GetJob ''https://api'' (PStr ''remote-1'')],
            files = Map.empty\<rparr>)"
  by (simp add: dropped_world_def calm_world_def json_response_def real_cfg_def
        sys0_def run_defs poll_loop.simps)

text \<open>
  C7, as the code has it. Suppose every status query is answered, and never with a
  terminal status; the clock does not run backwards, each cycle takes at least its five
  seconds of sleep, and two successive readings are less than \<open>86400 - max_wait\<close> seconds
  apart. Then polling terminates with the failed result
  \<^verbatim>\<open>Timeout waiting for video generation\<close>, after some number \<open>n\<close> of status queries; at
  the clock reading that ends it at least \<open>max_wait\<close> seconds have passed since the first
  reading, and at every earlier test of the loop less than \<open>max_wait\<close> seconds had passed.
  The deadline is tested only between cycles, so the call returns up to one cycle after
  \<open>max_wait\<close>, not at it.
\<close>

theorem poll_times_out:
  assumes pend: "\<forall>j. \<exists>resp. get_job w j rid = Inr resp \<and> still_pending resp"
    and first: "now w 0 \<le> now w 1"
    and step_lo: "\<forall>j. now w (Suc j) + 5000000 \<le> now w (Suc (Suc j))"
    and step_hi: "\<forall>j. now w (Suc j) - now w j < (86400 - max_wait) * 1000000"
    and mw: "0 \<le> max_wait"
  shows "\<exists>n. poll_for_completion w u rid max_wait s =
            Some (Inr (timeout_result rid),
                  s\<lparr>trace := trace s @ Now (now w 0) # poll_trace w u rid 0 n\<rparr>) \<and>
          max_wait * 1000000 \<le> now w (Suc n) - now w 0 \<and>
          (\<forall>j<n. now w (Suc j) - now w 0 < max_wait * 1000000)"
proof -
  define el where "el j = now w (Suc j) - now w 0" for j
  have grow: "int j * 5000000 \<le> el j" for j
    unfolding el_def by (rule clock_growth [OF first step_lo])
  have "max_wait * 1000000 \<le> el (nat max_wait)"
    using grow [of "nat max_wait"] mw by simp
  then have ex: "\<exists>j. max_wait * 1000000 \<le> el j" ..
  define n where "n = (LEAST j. max_wait * 1000000 \<le> el j)"
  have reached: "max_wait * 1000000 \<le> el n"
    unfolding n_def using ex by (rule LeastI_ex)
  have earlier: "el j < max_wait * 1000000" if "j < n" for j
    using not_less_Least [of j "\<lambda>j. max_wait * 1000000 \<le> el j"] that
    unfolding n_def by simp
  have nonneg: "0 \<le> el j" for j
    using grow [of j] by simp
  have small: "max_wait < 86395"
  proof -
    have "now w 1 + 5000000 \<le> now w 2"
      using step_lo [rule_format, of 0] by (simp add: numeral_2_eq_2)
    moreover have "now w 2 - now w 1 < (86400 - max_wait) * 1000000"
      using step_hi [rule_format, of 1] by (simp add: numeral_2_eq_2)
    ultimately show ?thesis by simp
  qed
  have day_n: "el n < 86400000000"
  proof (cases n)
    case 0
    have "now w 1 - now w 0 < (86400 - max_wait) * 1000000"
      using step_hi [rule_format, of 0] by simp
    with 0 mw show ?thesis by (simp add: el_def)
  next
    case (Suc m)
    then have "el m < max_wait * 1000000"
      using earlier [of m] by simp
    moreover have "now w (Suc (Suc m)) - now w (Suc m) < (86400 - max_wait) * 1000000"
      using step_hi [rule_format, of "Suc m"] by simp
    ultimately show ?thesis
      using Suc by (simp add: el_def algebra_simps)
  qed
  have before: "\<forall>j. 0 \<le> j \<and> j < n \<longrightarrow> td_seconds (now w (Suc j) - now w 0) < max_wait"
  proof (intro allI impI)
    fix j assume "0 \<le> j \<and> j < n"
    then have "el j < max_wait * 1000000" using earlier by simp
    moreover from this small have "el j < 86400000000" by simp
    ultimately show "td_seconds (now w (Suc j) - now w 0) < max_wait"
      using nonneg [of j] td_seconds_less [of "el j" max_wait] by (simp add: el_def)
  qed
  have at_n: "\<not> td_seconds (now w (Suc n) - now w 0) < max_wait"
    using td_seconds_reached [of max_wait "el n"] reached nonneg [of n] day_n
    by (simp add: el_def)
  have "poll_for_completion w u rid max_wait s =
          Some (Inr (timeout_result rid),
                s\<lparr>trace := trace s @ Now (now w 0) # poll_trace w u rid 0 n\<rparr>)"
    unfolding poll_for_completion_def
    by (simp add: poll_loop_until [OF pend before at_n] emit_def)
  moreover have "\<forall>j<n. now w (Suc j) - now w 0 < max_wait * 1000000"
    using earlier by (simp add: el_def)
  ultimately show ?thesis
    using reached by (auto simp: el_def)
qed

theorem poll_times_out_witness:
  "\<exists>n. poll_for_completion pending_world ''https://api'' (PStr ''remote-1'') 12 sys0 =
          Some (Inr (timeout_result (PStr ''remote-1'')),
                sys0\<lparr>trace := trace sys0 @ Now (now pending_world 0) #
                   poll_trace pending_world ''https://api'' (PStr ''remote-1'') 0 n\<rparr>) \<and>
        12 * 1000000 \<le> now pending_world (Suc n) - now pending_world 0"
proof -
  have pend: "\<forall>j. \<exists>resp. get_job pending_world j (PStr ''remote-1'') = Inr resp \<and>
      still_pending resp"
    by (simp add: pending_world_def calm_world_def json_response_def still_pending_def)
  have first: "now pending_world 0 \<le> now pending_world 1"
    and step_lo: "\<forall>j. now pending_world (Suc j) + 5000000 \<le> now pending_world (Suc (Suc j))"
    and step_hi: "\<forall>j. now pending_world (Suc j) - now pending_world j < (86400 - 12) * 1000000"
    and mw: "(0::int) \<le> 12"
    by (simp_all add: pending_world_def calm_world_def json_response_def algebra_simps)
  from poll_times_out [OF pend first step_lo step_hi mw, of "''https://api''" sys0]
  show ?thesis by blast
qed

text \<open>
  C7 as stated makes \<open>max_wait\<close> a hard upper bound on the polling phase, and that fails.
  With a service that keeps the job pending and answers slowly, the loop finds 295 s
  elapsed at its second test, queries again, and returns the timeout only at its third
  test, 500 s after the start, for a \<open>max_wait\<close> of 300 s.
\<close>

theorem poll_deadline_counterexample:
  "poll_for_completion slow_world ''https://api'' (PStr ''remote-1'') 300 sys0 =
     Some (Inr (timeout_result (PStr ''remote-1'')),
           \<lparr>trace = [Now 0,
                     Now 0, GetJob ''https://api'' (PStr ''remote-1''), Sleep 5,
                     Now 295000000, GetJob ''https://api'' (PStr ''remote-1''), Sleep 5,
                     Now 500000000],
            files = Map.empty\<rparr>) \<and>
   \<not> now slow_world 3 - now slow_world 0 \<le> 300 * 1000000"
  by (simp add: slow_world_def pending_world_def timeout_result_def calm_world_def
        json_response_def sys0_def run_defs poll_loop.simps)

end
